theory Spec2Isabelle
  imports Complex_Main
begin

section \<open>JavaScript values\<close>

text \<open>
  The values that \<open>JSON.parse\<close> can produce and that the handler builds as response
  payloads. A finite JSON number is a rational; a numeral too large for a double parses
  to an infinity. \<open>JUndefined\<close> is the value of a missing property. An object is the list
  of its own properties; strings are \<open>string\<close>.
\<close>

datatype jsvalue =
    JUndefined
  | JNull
  | JBool bool
  | JNum rat
  | JInfinity bool
  | JStr string
  | JArr "jsvalue list"
  | JObj "(string \<times> jsvalue) list"

datatype error = SyntaxError | TypeError

text \<open>JavaScript truthiness, as the operators \<open>!\<close>, \<open>&&\<close> and \<open>||\<close> read a value.\<close>

fun truthy :: "jsvalue \<Rightarrow> bool" where
  "truthy JUndefined = False"
| "truthy JNull = False"
| "truthy (JBool b) = b"
| "truthy (JNum n) = (n \<noteq> 0)"
| "truthy (JInfinity s) = True"
| "truthy (JStr s) = (s \<noteq> [])"
| "truthy (JArr xs) = True"
| "truthy (JObj kvs) = True"

text \<open>
  \<open>member o k\<close> is the own property \<open>k\<close> of an object, \<open>undefined\<close> when there is none
  and on every value that is not an object (none of the keys read by the handler,
  \<open>type\<close>, \<open>data\<close>, \<open>name\<close>, \<open>custom_id\<close>, is a property of a string, number, boolean
  or array). \<open>property\<close> is the property read \<open>v.k\<close>, which throws on \<open>undefined\<close>
  and \<open>null\<close>.
\<close>

fun member :: "jsvalue \<Rightarrow> string \<Rightarrow> jsvalue" where
  "member (JObj kvs) k = (case map_of kvs k of Some v \<Rightarrow> v | None \<Rightarrow> JUndefined)"
| "member v k = JUndefined"

fun elements :: "jsvalue \<Rightarrow> jsvalue list" where
  "elements (JArr xs) = xs"
| "elements v = []"

fun property :: "jsvalue \<Rightarrow> string \<Rightarrow> error + jsvalue" where
  "property JUndefined k = Inl TypeError"
| "property JNull k = Inl TypeError"
| "property v k = Inr (member v k)"

section \<open>The platform and the configuration\<close>

text \<open>
  What the worker calls and does not define: \<open>verifyKey\<close> of the discord-interactions
  package (its result is read for truthiness only, and is not awaited), \<open>JSON.parse\<close>
  (\<open>None\<close> when it throws a SyntaxError), \<open>JSON.stringify\<close> (\<open>None\<close> when it returns
  \<open>undefined\<close>) and \<open>String.prototype.toLowerCase\<close>.
\<close>

record platform =
  verifyKey :: "string \<Rightarrow> string \<Rightarrow> string \<Rightarrow> string \<Rightarrow> bool"
  JSON_parse :: "string \<Rightarrow> jsvalue option"
  JSON_stringify :: "jsvalue \<Rightarrow> string option"
  toLowerCase :: "string \<Rightarrow> string"

text \<open>
  The names exported by \<open>./commands.js\<close>, a file of the repository that is not among the
  sources; they are parameters of the handler.
\<close>

record commands =
  AWW_COMMAND_name :: string
  INVITE_COMMAND_name :: string

record env =
  DISCORD_APPLICATION_ID :: string
  DISCORD_PUBLIC_KEY :: string

text \<open>A request: \<open>request.headers.get\<close> as a map (\<open>None\<close> is \<open>null\<close>) and \<open>request.text()\<close>.\<close>

record request =
  req_headers :: "string \<rightharpoonup> string"
  req_body :: string

text \<open>The calls that leave the worker, in the order they happen.\<close>

datatype event =
    VerifyKeyCall string string string string
  | JsonParseCall string
  | ConsoleError string

subsection \<open>Enumerations of the discord-interactions package\<close>

definition InteractionType_PING :: rat where "InteractionType_PING = 1"
definition InteractionType_APPLICATION_COMMAND :: rat where "InteractionType_APPLICATION_COMMAND = 2"
definition InteractionType_MESSAGE_COMPONENT :: rat where "InteractionType_MESSAGE_COMPONENT = 3"
definition InteractionType_MODAL_SUBMIT :: rat where "InteractionType_MODAL_SUBMIT = 5"

definition InteractionResponseType_PONG :: rat where "InteractionResponseType_PONG = 1"
definition InteractionResponseType_CHANNEL_MESSAGE_WITH_SOURCE :: rat where
  "InteractionResponseType_CHANNEL_MESSAGE_WITH_SOURCE = 4"
definition InteractionResponseType_MODAL :: rat where "InteractionResponseType_MODAL = 9"

definition InteractionResponseFlags_EPHEMERAL :: rat where "InteractionResponseFlags_EPHEMERAL = 64"

definition MessageComponentTypes_ACTION_ROW :: rat where "MessageComponentTypes_ACTION_ROW = 1"
definition MessageComponentTypes_BUTTON :: rat where "MessageComponentTypes_BUTTON = 2"
definition MessageComponentTypes_STRING_SELECT :: rat where "MessageComponentTypes_STRING_SELECT = 3"
definition MessageComponentTypes_INPUT_TEXT :: rat where "MessageComponentTypes_INPUT_TEXT = 4"

definition ButtonStyleTypes_SECONDARY :: rat where "ButtonStyleTypes_SECONDARY = 2"
definition TextStyleTypes_SHORT :: rat where "TextStyleTypes_SHORT = 1"

section \<open>Responses\<close>

text \<open>
  A response is the constructor call that made it: \<open>new Response(body, init)\<close> or
  \<open>new JsonResponse(body, init)\<close>. The class \<open>JsonResponse\<close> (lines 17-27) passes
  \<open>JSON.stringify(body)\<close> to \<open>Response\<close>, with the JSON content type as its only header
  when no \<open>init\<close> is given and the given \<open>init\<close> otherwise. The status of a response whose
  \<open>init\<close> has none is 200.
\<close>

record response_init =
  init_status :: "nat option"
  init_headers :: "(string \<times> string) list"

datatype response =
    Response string response_init
  | JsonResponse jsvalue "response_init option"

definition json_init :: response_init where
  "json_init = \<lparr>init_status = None,
     init_headers = [(''content-type'', ''application/json;charset=UTF-8'')]\<rparr>"

fun init_of :: "response \<Rightarrow> response_init" where
  "init_of (Response b i) = i"
| "init_of (JsonResponse b None) = json_init"
| "init_of (JsonResponse b (Some i)) = i"

definition status_of :: "response \<Rightarrow> nat" where
  "status_of r = (case init_status (init_of r) of None \<Rightarrow> 200 | Some s \<Rightarrow> s)"

definition headers_of :: "response \<Rightarrow> (string \<times> string) list" where
  "headers_of r = init_headers (init_of r)"

fun body_of :: "platform \<Rightarrow> response \<Rightarrow> string option" where
  "body_of P (Response b i) = Some b"
| "body_of P (JsonResponse b i) = JSON_stringify P b"

section \<open>verifyDiscordRequest (lines 206-219)\<close>

record verify_result =
  interaction :: jsvalue
  isValid :: bool

text \<open>
  \<open>signature && timestamp && verifyKey(body, signature, timestamp, key)\<close>: a header that
  is \<open>null\<close> or the empty string is falsy and ends the conjunction before the call.
\<close>

fun isValidRequest ::
  "platform \<Rightarrow> string \<Rightarrow> string option \<Rightarrow> string option \<Rightarrow> string \<Rightarrow> bool \<times> event list" where
  "isValidRequest P body (Some signature) (Some timestamp) key =
     (if signature = [] then (False, [])
      else if timestamp = [] then (False, [])
      else (verifyKey P body signature timestamp key,
            [VerifyKeyCall body signature timestamp key]))"
| "isValidRequest P body signature timestamp key = (False, [])"

definition verifyDiscordRequest ::
  "platform \<Rightarrow> request \<Rightarrow> env \<Rightarrow> (error + verify_result) \<times> event list" where
  "verifyDiscordRequest P request e =
     (let signature = req_headers request ''x-signature-ed25519'';
          timestamp = req_headers request ''x-signature-timestamp'';
          body = req_body request;
          (ok, tr) = isValidRequest P body signature timestamp (DISCORD_PUBLIC_KEY e)
      in if \<not> ok then (Inr \<lparr>interaction = JUndefined, isValid = False\<rparr>, tr)
         else (case JSON_parse P body of
                 None \<Rightarrow> (Inl SyntaxError, tr @ [JsonParseCall body])
               | Some v \<Rightarrow> (Inr \<lparr>interaction = v, isValid = True\<rparr>, tr @ [JsonParseCall body])))"

section \<open>The interaction endpoint (lines 43-203)\<close>

text \<open>The message of the first command (lines 64-139).\<close>

definition aww_embed :: "string \<Rightarrow> jsvalue" where
  "aww_embed t =
     JObj [(''title'', JStr t),
           (''image'', JObj [(''url'', JStr ''https://picsum.photos/200/300''),
                             (''width'', JNum 200),
                             (''height'', JNum 300)])]"

definition aww_button :: "string \<Rightarrow> string \<Rightarrow> jsvalue" where
  "aww_button l c =
     JObj [(''type'', JNum MessageComponentTypes_BUTTON),
           (''style'', JNum ButtonStyleTypes_SECONDARY),
           (''label'', JStr l),
           (''custom_id'', JStr c)]"

definition aww_option :: "string \<Rightarrow> jsvalue" where
  "aww_option v = JObj [(''label'', JStr v), (''value'', JStr v)]"

definition aww_message :: jsvalue where
  "aww_message =
     JObj [(''type'', JNum InteractionResponseType_CHANNEL_MESSAGE_WITH_SOURCE),
           (''data'', JObj [
              (''embeds'', JArr [aww_embed ''1'', aww_embed ''2'', aww_embed ''3'']),
              (''components'', JArr [
                 JObj [(''type'', JNum MessageComponentTypes_ACTION_ROW),
                       (''components'', JArr [aww_button ''Next'' ''next'',
                                              aww_button ''Prev'' ''prev''])],
                 JObj [(''type'', JNum MessageComponentTypes_ACTION_ROW),
                       (''components'', JArr [
                          JObj [(''type'', JNum MessageComponentTypes_STRING_SELECT),
                                (''options'', JArr [aww_option ''1'', aww_option ''2'',
                                                    aww_option ''3'']),
                                (''custom_id'', JStr ''refine''),
                                (''placeholder'', JStr ''Choose an item to refine''),
                                (''min_values'', JNum 1),
                                (''max_values'', JNum 1)]])]])])]"

text \<open>The message of the second command (lines 142-150).\<close>

definition INVITE_URL :: "env \<Rightarrow> string" where
  "INVITE_URL e =
     ''https://discord.com/oauth2/authorize?client_id='' @ DISCORD_APPLICATION_ID e
       @ ''&scope=applications.commands''"

definition invite_message :: "env \<Rightarrow> jsvalue" where
  "invite_message e =
     JObj [(''type'', JNum InteractionResponseType_CHANNEL_MESSAGE_WITH_SOURCE),
           (''data'', JObj [(''content'', JStr (INVITE_URL e)),
                            (''flags'', JNum InteractionResponseFlags_EPHEMERAL)])]"

text \<open>The modal opened by the component \<open>refine\<close> (lines 160-181).\<close>

definition refine_modal :: jsvalue where
  "refine_modal =
     JObj [(''type'', JNum InteractionResponseType_MODAL),
           (''data'', JObj [
              (''custom_id'', JStr ''refine_modal''),
              (''title'', JStr ''Refine''),
              (''components'', JArr [
                 JObj [(''type'', JNum MessageComponentTypes_ACTION_ROW),
                       (''components'', JArr [
                          JObj [(''type'', JNum MessageComponentTypes_INPUT_TEXT),
                                (''custom_id'', JStr ''prompt''),
                                (''label'', JStr ''Prompt''),
                                (''style'', JNum TextStyleTypes_SHORT),
                                (''min_length'', JNum 1),
                                (''max_length'', JNum 4000)]])]])])]"

text \<open>
  The message that echoes \<open>JSON.stringify(interaction.data)\<close> (lines 183-188 and
  193-198); its \<open>content\<close> is \<open>undefined\<close> when \<open>JSON.stringify\<close> returns that.
\<close>

definition echo_message :: "platform \<Rightarrow> jsvalue \<Rightarrow> jsvalue" where
  "echo_message P d =
     JObj [(''type'', JNum InteractionResponseType_CHANNEL_MESSAGE_WITH_SOURCE),
           (''data'', JObj [(''content'',
              (case JSON_stringify P d of None \<Rightarrow> JUndefined | Some s \<Rightarrow> JStr s))])]"

text \<open>\<open>new JsonResponse({ error: 'Unknown Type' }, { status: 400 })\<close> (lines 153 and 202).\<close>

definition unknown_type_response :: response where
  "unknown_type_response =
     JsonResponse (JObj [(''error'', JStr ''Unknown Type'')])
       (Some \<lparr>init_status = Some 400, init_headers = []\<rparr>)"

text \<open>\<open>new Response('Bad request signature.', { status: 401 })\<close> (line 49).\<close>

definition bad_signature_response :: response where
  "bad_signature_response =
     Response ''Bad request signature.'' \<lparr>init_status = Some 401, init_headers = []\<rparr>"

text \<open>
  The method call \<open>name.toLowerCase()\<close>: only a string has the method, and the call
  throws a TypeError on every other value.
\<close>

fun call_toLowerCase :: "platform \<Rightarrow> jsvalue \<Rightarrow> error + string" where
  "call_toLowerCase P (JStr s) = Inr (toLowerCase P s)"
| "call_toLowerCase P v = Inl TypeError"

text \<open>The switch on \<open>interaction.data.name.toLowerCase()\<close> (lines 62-154).\<close>

definition application_command ::
  "platform \<Rightarrow> commands \<Rightarrow> env \<Rightarrow> jsvalue \<Rightarrow> error + response" where
  "application_command P C e intr =
     (case property intr ''data'' of
        Inl err \<Rightarrow> Inl err
      | Inr d \<Rightarrow>
     (case property d ''name'' of
        Inl err \<Rightarrow> Inl err
      | Inr n \<Rightarrow>
     (case call_toLowerCase P n of
        Inl err \<Rightarrow> Inl err
      | Inr name \<Rightarrow>
          if name = toLowerCase P (AWW_COMMAND_name C)
            then Inr (JsonResponse aww_message None)
          else if name = toLowerCase P (INVITE_COMMAND_name C)
            then Inr (JsonResponse (invite_message e) None)
          else Inr unknown_type_response)))"

text \<open>The switch on \<open>interaction.data.custom_id\<close> (lines 158-189).\<close>

definition message_component :: "platform \<Rightarrow> jsvalue \<Rightarrow> error + response" where
  "message_component P intr =
     (case property intr ''data'' of
        Inl err \<Rightarrow> Inl err
      | Inr d \<Rightarrow>
     (case property d ''custom_id'' of
        Inl err \<Rightarrow> Inl err
      | Inr custom_id \<Rightarrow>
          if custom_id = JStr ''refine''
            then Inr (JsonResponse refine_modal None)
          else Inr (JsonResponse (echo_message P d) None)))"

text \<open>The modal submission (lines 192-199).\<close>

definition modal_submit :: "platform \<Rightarrow> jsvalue \<Rightarrow> error + response" where
  "modal_submit P intr =
     (case property intr ''data'' of
        Inl err \<Rightarrow> Inl err
      | Inr d \<Rightarrow> Inr (JsonResponse (echo_message P d) None))"

text \<open>
  The chain of tests on \<open>interaction.type\<close> (lines 52-202), with strict equality to the
  numbers of the enumeration; the last branch logs before it answers.
\<close>

definition dispatch ::
  "platform \<Rightarrow> commands \<Rightarrow> env \<Rightarrow> jsvalue \<Rightarrow> (error + response) \<times> event list" where
  "dispatch P C e intr =
     (case property intr ''type'' of
        Inl err \<Rightarrow> (Inl err, [])
      | Inr ty \<Rightarrow>
          if ty = JNum InteractionType_PING
            then (Inr (JsonResponse (JObj [(''type'', JNum InteractionResponseType_PONG)]) None), [])
          else if ty = JNum InteractionType_APPLICATION_COMMAND
            then (application_command P C e intr, [])
          else if ty = JNum InteractionType_MESSAGE_COMPONENT
            then (message_component P intr, [])
          else if ty = JNum InteractionType_MODAL_SUBMIT
            then (modal_submit P intr, [])
          else (Inr unknown_type_response, [ConsoleError ''Unknown Type'']))"

text \<open>
  The handler of \<open>POST /\<close> (lines 43-50): the interaction is the one that
  \<open>verifyDiscordRequest\<close> returns, and the guard \<open>!isValid || !interaction\<close> answers 401
  before any test on the interaction.
\<close>

definition post_root ::
  "platform \<Rightarrow> commands \<Rightarrow> request \<Rightarrow> env \<Rightarrow> (error + response) \<times> event list" where
  "post_root P C request e =
     (case verifyDiscordRequest P request e of
        (Inl err, tr) \<Rightarrow> (Inl err, tr)
      | (Inr r, tr) \<Rightarrow>
          if \<not> isValid r \<or> \<not> truthy (interaction r)
            then (Inr bad_signature_response, tr)
          else (case dispatch P C e (interaction r) of (res, tr') \<Rightarrow> (res, tr @ tr')))"

text \<open>The components that an action row holds.\<close>

definition row_components :: "jsvalue \<Rightarrow> jsvalue list" where
  "row_components row = elements (member row ''components'')"

section \<open>A sample platform and sample requests\<close>

text \<open>
  A stand-in for the platform, used at the concrete inputs below. Its \<open>verifyKey\<close> accepts
  a signature that spells the key, the timestamp and the body; its \<open>JSON.parse\<close> and
  \<open>JSON.stringify\<close> are tables over the sample texts; its \<open>toLowerCase\<close> maps the letters
  A to Z.
\<close>

definition quoted :: "string \<Rightarrow> string" where
  "quoted s = CHR 0x22 # s @ [CHR 0x22]"

definition ping_body :: string where
  "ping_body = ''{'' @ quoted ''type'' @ '':1}''"

definition autocomplete_body :: string where
  "autocomplete_body = ''{'' @ quoted ''type'' @ '':4}''"

definition command_body :: "string \<Rightarrow> string" where
  "command_body n =
     ''{'' @ quoted ''type'' @ '':2,'' @ quoted ''data'' @ '':{'' @ quoted ''name'' @ '':''
       @ quoted n @ ''}}''"

definition command_interaction :: "string \<Rightarrow> jsvalue" where
  "command_interaction n = JObj [(''type'', JNum 2), (''data'', JObj [(''name'', JStr n)])]"

definition refine_body :: string where
  "refine_body =
     ''{'' @ quoted ''type'' @ '':3,'' @ quoted ''data'' @ '':{'' @ quoted ''custom_id'' @ '':''
       @ quoted ''refine'' @ ''}}''"

definition refine_interaction :: jsvalue where
  "refine_interaction =
     JObj [(''type'', JNum 3), (''data'', JObj [(''custom_id'', JStr ''refine'')])]"

definition sample_parse :: "string \<Rightarrow> jsvalue option" where
  "sample_parse = map_of
     [(ping_body, JObj [(''type'', JNum 1)]),
      (autocomplete_body, JObj [(''type'', JNum 4)]),
      (command_body ''aww'', command_interaction ''aww''),
      (command_body ''AwW'', command_interaction ''AwW''),
      (command_body ''Invite'', command_interaction ''Invite''),
      (command_body ''help'', command_interaction ''help''),
      (refine_body, refine_interaction),
      (''null'', JNull), (''false'', JBool False), (''0'', JNum 0), (quoted [], JStr [])]"

definition sample_stringify :: "jsvalue \<Rightarrow> string option" where
  "sample_stringify = map_of
     [(JObj [(''type'', JNum 1)], ping_body),
      (JObj [(''error'', JStr ''Unknown Type'')],
       ''{'' @ quoted ''error'' @ '':'' @ quoted ''Unknown Type'' @ ''}'')]"

definition ascii_toLowerCase :: "string \<Rightarrow> string" where
  "ascii_toLowerCase =
     map (\<lambda>c. case map_of (zip ''ABCDEFGHIJKLMNOPQRSTUVWXYZ'' ''abcdefghijklmnopqrstuvwxyz'') c of
                 None \<Rightarrow> c | Some l \<Rightarrow> l)"

definition sample_verifyKey :: "string \<Rightarrow> string \<Rightarrow> string \<Rightarrow> string \<Rightarrow> bool" where
  "sample_verifyKey body signature timestamp key = (signature = key @ timestamp @ body)"

definition sample_platform :: platform where
  "sample_platform =
     \<lparr>verifyKey = sample_verifyKey, JSON_parse = sample_parse,
      JSON_stringify = sample_stringify, toLowerCase = ascii_toLowerCase\<rparr>"

definition sample_commands :: commands where
  "sample_commands = \<lparr>AWW_COMMAND_name = ''aww'', INVITE_COMMAND_name = ''invite''\<rparr>"

definition sample_env :: env where
  "sample_env = \<lparr>DISCORD_APPLICATION_ID = ''1234'', DISCORD_PUBLIC_KEY = ''k''\<rparr>"

text \<open>A request for the body \<open>b\<close> that carries the sample signature of \<open>b\<close>.\<close>

definition signed_request :: "string \<Rightarrow> request" where
  "signed_request b =
     \<lparr>req_headers = [''x-signature-ed25519'' \<mapsto> ''k'' @ ''17'' @ b,
                      ''x-signature-timestamp'' \<mapsto> ''17''],
      req_body = b\<rparr>"

text \<open>The sample request with its body replaced after signing.\<close>

definition tampered_request :: request where
  "tampered_request = (signed_request ping_body)\<lparr>req_body := command_body ''aww''\<rparr>"

section \<open>The layout of the first command's message, as the specification words it\<close>

text \<open>
  The specification's sentence, read as written: three embeds, and a single action row
  that holds the buttons labelled Next and Prev together with a select menu whose options
  are 1, 2 and 3. (Component types: 1 action row, 2 button, 3 string select.)
\<close>

definition buttons_and_select_in_one_row :: "jsvalue \<Rightarrow> bool" where
  "buttons_and_select_in_one_row pl =
     (let d = member pl ''data'' in
      length (elements (member d ''embeds'')) = 3 \<and>
      (case elements (member d ''components'') of
         [row] \<Rightarrow>
           member row ''type'' = JNum 1 \<and>
           map (\<lambda>c. member c ''label'')
             (filter (\<lambda>c. member c ''type'' = JNum 2) (row_components row)) =
             [JStr ''Next'', JStr ''Prev''] \<and>
           map (\<lambda>c. map (\<lambda>x. member x ''value'') (elements (member c ''options'')))
             (filter (\<lambda>c. member c ''type'' = JNum 3) (row_components row)) =
             [[JStr ''1'', JStr ''2'', JStr ''3'']]
       | _ \<Rightarrow> False))"

section \<open>Basic facts\<close>

lemmas enum_defs =
  InteractionType_PING_def InteractionType_APPLICATION_COMMAND_def
  InteractionType_MESSAGE_COMPONENT_def InteractionType_MODAL_SUBMIT_def
  InteractionResponseType_PONG_def InteractionResponseType_CHANNEL_MESSAGE_WITH_SOURCE_def
  InteractionResponseType_MODAL_def InteractionResponseFlags_EPHEMERAL_def
  MessageComponentTypes_ACTION_ROW_def MessageComponentTypes_BUTTON_def
  MessageComponentTypes_STRING_SELECT_def MessageComponentTypes_INPUT_TEXT_def
  ButtonStyleTypes_SECONDARY_def TextStyleTypes_SHORT_def

lemmas sample_defs =
  sample_parse_def quoted_def ping_body_def autocomplete_body_def command_body_def
  command_interaction_def refine_body_def refine_interaction_def

lemma member_defined: "member v k \<noteq> JUndefined \<Longrightarrow> property v k = Inr (member v k)"
  by (cases v) auto

lemma truthy_property: "truthy v \<Longrightarrow> property v k = Inr (member v k)"
  by (cases v) auto

lemma typed_truthy: "member v k = JNum t \<Longrightarrow> truthy v"
  by (cases v) auto

text \<open>
  What a successful verification is, in terms of the platform: both headers are present
  and not empty, \<open>verifyKey\<close> accepts them over the body, and the interaction is the parse
  of that body.
\<close>

lemma verified_iff:
  "fst (verifyDiscordRequest P req e) = Inr \<lparr>interaction = v, isValid = True\<rparr> \<longleftrightarrow>
     (\<exists>sg ts. req_headers req ''x-signature-ed25519'' = Some sg \<and> sg \<noteq> [] \<and>
        req_headers req ''x-signature-timestamp'' = Some ts \<and> ts \<noteq> [] \<and>
        verifyKey P (req_body req) sg ts (DISCORD_PUBLIC_KEY e) \<and>
        JSON_parse P (req_body req) = Some v)"
  by (cases "req_headers req ''x-signature-ed25519''";
      cases "req_headers req ''x-signature-timestamp''")
     (auto simp: verifyDiscordRequest_def Let_def split: option.splits)

lemma unverified_result:
  assumes "\<not> (\<exists>sg ts. req_headers req ''x-signature-ed25519'' = Some sg \<and> sg \<noteq> [] \<and>
             req_headers req ''x-signature-timestamp'' = Some ts \<and> ts \<noteq> [] \<and>
             verifyKey P (req_body req) sg ts (DISCORD_PUBLIC_KEY e))"
  shows "fst (verifyDiscordRequest P req e) = Inr \<lparr>interaction = JUndefined, isValid = False\<rparr>"
  using assms
  by (cases "req_headers req ''x-signature-ed25519''";
      cases "req_headers req ''x-signature-timestamp''")
     (auto simp: verifyDiscordRequest_def Let_def split: option.splits)

lemma invalid_result:
  assumes "fst (verifyDiscordRequest P req e) = Inr r" and "\<not> isValid r"
  shows "interaction r = JUndefined"
    and "JsonParseCall b \<notin> set (snd (verifyDiscordRequest P req e))"
  using assms
  by (cases "req_headers req ''x-signature-ed25519''";
      cases "req_headers req ''x-signature-timestamp''";
      auto simp: verifyDiscordRequest_def Let_def split: option.splits if_splits)+

lemma post_root_invalid:
  assumes "fst (verifyDiscordRequest P req e) = Inr r" and "\<not> isValid r"
  shows "post_root P C req e = (Inr bad_signature_response, snd (verifyDiscordRequest P req e))"
  using assms by (cases "verifyDiscordRequest P req e") (auto simp: post_root_def)

lemma post_root_verified:
  assumes "fst (verifyDiscordRequest P req e) = Inr \<lparr>interaction = v, isValid = True\<rparr>"
  shows "fst (post_root P C req e) =
           (if truthy v then fst (dispatch P C e v) else Inr bad_signature_response)"
  using assms
  by (cases "verifyDiscordRequest P req e") (auto simp: post_root_def split: prod.splits)

lemma accepted_trace:
  assumes "req_headers req ''x-signature-ed25519'' = Some sg" and "sg \<noteq> []"
    and "req_headers req ''x-signature-timestamp'' = Some ts" and "ts \<noteq> []"
    and "verifyKey P (req_body req) sg ts (DISCORD_PUBLIC_KEY e)"
  shows "\<exists>tr. snd (post_root P C req e) =
           VerifyKeyCall (req_body req) sg ts (DISCORD_PUBLIC_KEY e) #
           JsonParseCall (req_body req) # tr"
  using assms
  by (cases "JSON_parse P (req_body req)")
     (auto simp: post_root_def verifyDiscordRequest_def Let_def split: prod.splits)

subsection \<open>The branches of the dispatch\<close>

lemma dispatch_typed:
  assumes "member v ''type'' = JNum t"
  shows "fst (dispatch P C e v) =
           (if t = 1 then Inr (JsonResponse (JObj [(''type'', JNum 1)]) None)
            else if t = 2 then application_command P C e v
            else if t = 3 then message_component P v
            else if t = 5 then modal_submit P v
            else Inr unknown_type_response)"
proof -
  from assms have "property v ''type'' = Inr (JNum t)" by (simp add: member_defined)
  then show ?thesis by (simp add: dispatch_def enum_defs)
qed

lemma dispatch_untyped:
  assumes "truthy v" and "member v ''type'' \<notin> {JNum 1, JNum 2, JNum 3, JNum 5}"
  shows "dispatch P C e v = (Inr unknown_type_response, [ConsoleError ''Unknown Type''])"
  using assms by (simp add: dispatch_def enum_defs truthy_property)

lemma dispatch_not_bad_signature: "fst (dispatch P C e v) \<noteq> Inr bad_signature_response"
  by (auto simp: dispatch_def application_command_def message_component_def modal_submit_def
      bad_signature_response_def unknown_type_response_def split: sum.splits)

lemma application_command_named:
  assumes "member (member v ''data'') ''name'' = JStr n"
  shows "application_command P C e v =
           (if toLowerCase P n = toLowerCase P (AWW_COMMAND_name C)
              then Inr (JsonResponse aww_message None)
            else if toLowerCase P n = toLowerCase P (INVITE_COMMAND_name C)
              then Inr (JsonResponse (invite_message e) None)
            else Inr unknown_type_response)"
proof -
  from assms have d: "member v ''data'' \<noteq> JUndefined" by (cases "member v ''data''") auto
  from assms have "property (member v ''data'') ''name'' = Inr (JStr n)"
    by (simp add: member_defined)
  with member_defined [OF d] show ?thesis
    by (simp add: application_command_def)
qed

lemma message_component_refine:
  assumes "member (member v ''data'') ''custom_id'' = JStr ''refine''"
  shows "message_component P v = Inr (JsonResponse refine_modal None)"
proof -
  from assms have d: "member v ''data'' \<noteq> JUndefined" by (cases "member v ''data''") auto
  from assms have "property (member v ''data'') ''custom_id'' = Inr (JStr ''refine'')"
    by (simp add: member_defined)
  with member_defined [OF d] show ?thesis
    by (simp add: message_component_def)
qed

subsection \<open>The sample platform at the sample requests\<close>

lemma sample_verified:
  "sample_parse b = Some v \<Longrightarrow>
   verifyDiscordRequest sample_platform (signed_request b) sample_env =
     (Inr \<lparr>interaction = v, isValid = True\<rparr>,
      [VerifyKeyCall b (''k'' @ ''17'' @ b) ''17'' ''k'', JsonParseCall b])"
  by (simp add: verifyDiscordRequest_def sample_platform_def signed_request_def sample_env_def
      sample_verifyKey_def)

lemma sample_parse_values:
  "sample_parse ping_body = Some (JObj [(''type'', JNum 1)])"
  "sample_parse autocomplete_body = Some (JObj [(''type'', JNum 4)])"
  "sample_parse (command_body ''aww'') = Some (command_interaction ''aww'')"
  "sample_parse (command_body ''AwW'') = Some (command_interaction ''AwW'')"
  "sample_parse (command_body ''Invite'') = Some (command_interaction ''Invite'')"
  "sample_parse (command_body ''help'') = Some (command_interaction ''help'')"
  "sample_parse refine_body = Some refine_interaction"
  "sample_parse ''null'' = Some JNull"
  "sample_parse ''false'' = Some (JBool False)"
  "sample_parse ''0'' = Some (JNum 0)"
  "sample_parse (quoted []) = Some (JStr [])"
  by (simp_all add: sample_defs)

lemma sample_lower:
  "toLowerCase sample_platform ''aww'' = ''aww''"
  "toLowerCase sample_platform ''AwW'' = ''aww''"
  "toLowerCase sample_platform ''invite'' = ''invite''"
  "toLowerCase sample_platform ''Invite'' = ''invite''"
  "toLowerCase sample_platform ''help'' = ''help''"
  by (simp_all add: sample_platform_def ascii_toLowerCase_def)

lemma sample_application_id: "DISCORD_APPLICATION_ID sample_env = ''1234''"
  by (simp add: sample_env_def)

lemma tampered_unverified:
  "verifyDiscordRequest sample_platform tampered_request sample_env =
     (Inr \<lparr>interaction = JUndefined, isValid = False\<rparr>,
      [VerifyKeyCall (command_body ''aww'') (''k'' @ ''17'' @ ping_body) ''17'' ''k''])"
  by (simp add: verifyDiscordRequest_def tampered_request_def signed_request_def
      sample_platform_def sample_env_def sample_verifyKey_def ping_body_def command_body_def
      quoted_def)

section \<open>Verification comes first\<close>

text \<open>
  Claim C1. The interaction is never acted upon before its envelope passes verification.
  First, whenever the handler does anything other than answer 401, both headers were
  present, \<open>verifyKey\<close> accepted them over the received body, and that call was the first
  thing the handler did. Second, when \<open>verifyDiscordRequest\<close> reports \<open>isValid\<close> false, it
  hands over no interaction, the handler answers 401, the only calls made are those of the
  verification, and \<open>JSON.parse\<close> is not among them. Third, the interaction that reaches
  the dispatch is the one the verification step returned, which is the parse of the
  verified body.
\<close>

theorem verification_precedes_dispatch:
  "(fst (post_root P C req e) \<noteq> Inr bad_signature_response \<longrightarrow>
      (\<exists>sg ts. req_headers req ''x-signature-ed25519'' = Some sg \<and>
         req_headers req ''x-signature-timestamp'' = Some ts \<and>
         verifyKey P (req_body req) sg ts (DISCORD_PUBLIC_KEY e) \<and>
         hd (snd (post_root P C req e)) =
           VerifyKeyCall (req_body req) sg ts (DISCORD_PUBLIC_KEY e))) \<and>
   (\<forall>r. fst (verifyDiscordRequest P req e) = Inr r \<and> \<not> isValid r \<longrightarrow>
      interaction r = JUndefined \<and>
      post_root P C req e = (Inr bad_signature_response, snd (verifyDiscordRequest P req e)) \<and>
      (\<forall>b. JsonParseCall b \<notin> set (snd (post_root P C req e)))) \<and>
   (\<forall>r. fst (verifyDiscordRequest P req e) = Inr r \<and> isValid r \<and> truthy (interaction r) \<longrightarrow>
      JSON_parse P (req_body req) = Some (interaction r) \<and>
      fst (post_root P C req e) = fst (dispatch P C e (interaction r)))"
proof (intro conjI impI allI)
  assume ne: "fst (post_root P C req e) \<noteq> Inr bad_signature_response"
  have "\<exists>sg ts. req_headers req ''x-signature-ed25519'' = Some sg \<and> sg \<noteq> [] \<and>
          req_headers req ''x-signature-timestamp'' = Some ts \<and> ts \<noteq> [] \<and>
          verifyKey P (req_body req) sg ts (DISCORD_PUBLIC_KEY e)"
  proof (rule ccontr)
    assume n: "\<not> ?thesis"
    from unverified_result [OF n] ne show False
      by (simp add: post_root_invalid)
  qed
  then obtain sg ts where a: "req_headers req ''x-signature-ed25519'' = Some sg" "sg \<noteq> []"
      "req_headers req ''x-signature-timestamp'' = Some ts" "ts \<noteq> []"
      "verifyKey P (req_body req) sg ts (DISCORD_PUBLIC_KEY e)"
    by blast
  from accepted_trace [OF a, of C] a
  show "\<exists>sg ts. req_headers req ''x-signature-ed25519'' = Some sg \<and>
         req_headers req ''x-signature-timestamp'' = Some ts \<and>
         verifyKey P (req_body req) sg ts (DISCORD_PUBLIC_KEY e) \<and>
         hd (snd (post_root P C req e)) =
           VerifyKeyCall (req_body req) sg ts (DISCORD_PUBLIC_KEY e)"
    by auto
next
  fix r assume "fst (verifyDiscordRequest P req e) = Inr r \<and> \<not> isValid r"
  then show "interaction r = JUndefined"
    by (blast intro: invalid_result(1))
next
  fix r assume "fst (verifyDiscordRequest P req e) = Inr r \<and> \<not> isValid r"
  then show "post_root P C req e =
      (Inr bad_signature_response, snd (verifyDiscordRequest P req e))"
    by (simp add: post_root_invalid)
next
  fix r b assume a: "fst (verifyDiscordRequest P req e) = Inr r \<and> \<not> isValid r"
  then have "post_root P C req e =
      (Inr bad_signature_response, snd (verifyDiscordRequest P req e))"
    by (simp add: post_root_invalid)
  moreover from a have "JsonParseCall b \<notin> set (snd (verifyDiscordRequest P req e))"
    using invalid_result(2) [of P req e r b] by simp
  ultimately show "JsonParseCall b \<notin> set (snd (post_root P C req e))" by simp
next
  fix r assume a: "fst (verifyDiscordRequest P req e) = Inr r \<and> isValid r \<and>
      truthy (interaction r)"
  then have "r = \<lparr>interaction = interaction r, isValid = True\<rparr>" by simp
  with a have v: "fst (verifyDiscordRequest P req e) =
      Inr \<lparr>interaction = interaction r, isValid = True\<rparr>" by simp
  from v show "JSON_parse P (req_body req) = Some (interaction r)"
    unfolding verified_iff by blast
  from a post_root_verified [OF v, of C]
  show "fst (post_root P C req e) = fst (dispatch P C e (interaction r))" by simp
qed

theorem verification_precedes_dispatch_witness:
  "fst (post_root sample_platform sample_commands (signed_request ping_body) sample_env) \<noteq>
     Inr bad_signature_response \<and>
   hd (snd (post_root sample_platform sample_commands (signed_request ping_body) sample_env)) =
     VerifyKeyCall ping_body (''k'' @ ''17'' @ ping_body) ''17'' ''k'' \<and>
   fst (post_root sample_platform sample_commands (signed_request ping_body) sample_env) =
     fst (dispatch sample_platform sample_commands sample_env (JObj [(''type'', JNum 1)])) \<and>
   post_root sample_platform sample_commands tampered_request sample_env =
     (Inr bad_signature_response,
      [VerifyKeyCall (command_body ''aww'') (''k'' @ ''17'' @ ping_body) ''17'' ''k''])"
proof -
  let ?good = "signed_request ping_body"
  have v: "verifyDiscordRequest sample_platform ?good sample_env =
      (Inr \<lparr>interaction = JObj [(''type'', JNum 1)], isValid = True\<rparr>,
       [VerifyKeyCall ping_body (''k'' @ ''17'' @ ping_body) ''17'' ''k'', JsonParseCall ping_body])"
    by (simp add: sample_verified sample_parse_values)
  have d: "fst (post_root sample_platform sample_commands ?good sample_env) \<noteq>
      Inr bad_signature_response"
    using post_root_verified [of sample_platform ?good sample_env "JObj [(''type'', JNum 1)]"
        sample_commands] v
    by (simp add: dispatch_not_bad_signature)
  have h: "req_headers ?good ''x-signature-ed25519'' = Some (''k'' @ ''17'' @ ping_body)"
      "req_headers ?good ''x-signature-timestamp'' = Some ''17''"
      "req_body ?good = ping_body" "DISCORD_PUBLIC_KEY sample_env = ''k''"
    by (simp_all add: signed_request_def sample_env_def)
  note c = verification_precedes_dispatch [of sample_platform sample_commands ?good sample_env]
    verification_precedes_dispatch [of sample_platform sample_commands tampered_request sample_env]
  from c(1) d h have "hd (snd (post_root sample_platform sample_commands ?good sample_env)) =
     VerifyKeyCall ping_body (''k'' @ ''17'' @ ping_body) ''17'' ''k''"
    by auto
  moreover from c(1) v
  have "fst (post_root sample_platform sample_commands ?good sample_env) =
     fst (dispatch sample_platform sample_commands sample_env (JObj [(''type'', JNum 1)]))"
    by simp
  moreover from c(2) tampered_unverified
  have "post_root sample_platform sample_commands tampered_request sample_env =
     (Inr bad_signature_response,
      [VerifyKeyCall (command_body ''aww'') (''k'' @ ''17'' @ ping_body) ''17'' ''k''])"
    by simp
  ultimately show ?thesis using d by simp
qed

section \<open>Invalid signatures\<close>

text \<open>
  Claim C2. When the signature that arrives is not accepted by \<open>verifyKey\<close> over the body
  that arrives (a wrong signature, or a body altered after signing, so that the signature
  no longer verifies over it), the verification fails and the handler answers with status
  401 and the plain text \<open>Bad request signature.\<close>, a response built by \<open>Response\<close> itself
  with no header of its own. The verdict of \<open>verifyKey\<close> is the package's; the handler
  computes it over the received body and trusts nothing else.
\<close>

theorem invalid_signature_is_rejected:
  assumes "\<not> (\<exists>sg ts. req_headers req ''x-signature-ed25519'' = Some sg \<and>
             req_headers req ''x-signature-timestamp'' = Some ts \<and>
             verifyKey P (req_body req) sg ts (DISCORD_PUBLIC_KEY e))"
  shows "fst (verifyDiscordRequest P req e) =
           Inr \<lparr>interaction = JUndefined, isValid = False\<rparr> \<and>
         fst (post_root P C req e) =
           Inr (Response ''Bad request signature.'' \<lparr>init_status = Some 401, init_headers = []\<rparr>) \<and>
         status_of (Response ''Bad request signature.''
           \<lparr>init_status = Some 401, init_headers = []\<rparr>) = 401 \<and>
         headers_of (Response ''Bad request signature.''
           \<lparr>init_status = Some 401, init_headers = []\<rparr>) = [] \<and>
         body_of P (Response ''Bad request signature.''
           \<lparr>init_status = Some 401, init_headers = []\<rparr>) = Some ''Bad request signature.''"
proof -
  from assms have v: "fst (verifyDiscordRequest P req e) =
      Inr \<lparr>interaction = JUndefined, isValid = False\<rparr>"
    by (intro unverified_result) blast
  then show ?thesis
    using post_root_invalid [OF v, of C]
    by (simp add: bad_signature_response_def status_of_def headers_of_def)
qed

theorem invalid_signature_is_rejected_witness:
  "\<not> sample_verifyKey (command_body ''aww'') (''k'' @ ''17'' @ ping_body) ''17'' ''k'' \<and>
   fst (verifyDiscordRequest sample_platform tampered_request sample_env) =
     Inr \<lparr>interaction = JUndefined, isValid = False\<rparr> \<and>
   fst (post_root sample_platform sample_commands tampered_request sample_env) =
     Inr (Response ''Bad request signature.'' \<lparr>init_status = Some 401, init_headers = []\<rparr>)"
  using invalid_signature_is_rejected [of tampered_request sample_platform sample_env
      sample_commands]
  by (simp add: tampered_request_def signed_request_def sample_platform_def sample_env_def
      sample_verifyKey_def ping_body_def command_body_def quoted_def)

section \<open>Missing headers\<close>

text \<open>
  Claim C3. When the request lacks the header \<open>x-signature-ed25519\<close> or the header
  \<open>x-signature-timestamp\<close>, \<open>verifyDiscordRequest\<close> returns \<open>isValid\<close> false, and the list
  of calls it made is empty: \<open>verifyKey\<close> was not invoked.
\<close>

theorem missing_header_fails_without_verifyKey:
  assumes "req_headers req ''x-signature-ed25519'' = None \<or>
           req_headers req ''x-signature-timestamp'' = None"
  shows "verifyDiscordRequest P req e =
           (Inr \<lparr>interaction = JUndefined, isValid = False\<rparr>, [])"
  using assms
  by (cases "req_headers req ''x-signature-ed25519''";
      cases "req_headers req ''x-signature-timestamp''")
     (auto simp: verifyDiscordRequest_def)

theorem missing_header_fails_without_verifyKey_witness:
  "req_headers \<lparr>req_headers = [''x-signature-ed25519'' \<mapsto> ''k17'' @ ping_body],
                 req_body = ping_body\<rparr> ''x-signature-timestamp'' = None \<and>
   verifyDiscordRequest sample_platform
     \<lparr>req_headers = [''x-signature-ed25519'' \<mapsto> ''k17'' @ ping_body], req_body = ping_body\<rparr>
     sample_env = (Inr \<lparr>interaction = JUndefined, isValid = False\<rparr>, [])"
  using missing_header_fails_without_verifyKey
    [of "\<lparr>req_headers = [''x-signature-ed25519'' \<mapsto> ''k17'' @ ping_body],
           req_body = ping_body\<rparr>" sample_platform sample_env]
  by simp

section \<open>The handshake\<close>

text \<open>
  Claim C4. A verified interaction whose \<open>type\<close> is 1 (PING) is answered by
  \<open>new JsonResponse({ type: 1 })\<close>: the status is 200, the content type is JSON, and the
  body is the JSON text of the object whose only property is \<open>type\<close> with the value 1
  (PONG).
\<close>

theorem ping_yields_pong:
  assumes "fst (verifyDiscordRequest P req e) = Inr \<lparr>interaction = v, isValid = True\<rparr>"
    and "member v ''type'' = JNum 1"
  shows "fst (post_root P C req e) = Inr (JsonResponse (JObj [(''type'', JNum 1)]) None) \<and>
         status_of (JsonResponse (JObj [(''type'', JNum 1)]) None) = 200 \<and>
         headers_of (JsonResponse (JObj [(''type'', JNum 1)]) None) =
           [(''content-type'', ''application/json;charset=UTF-8'')] \<and>
         body_of P (JsonResponse (JObj [(''type'', JNum 1)]) None) =
           JSON_stringify P (JObj [(''type'', JNum 1)])"
proof -
  from assms(2) have "truthy v" by (rule typed_truthy)
  then show ?thesis
    using post_root_verified [OF assms(1), of C] assms(2)
    by (simp add: dispatch_typed status_of_def headers_of_def json_init_def)
qed

theorem ping_yields_pong_witness:
  "fst (verifyDiscordRequest sample_platform (signed_request ping_body) sample_env) =
     Inr \<lparr>interaction = JObj [(''type'', JNum 1)], isValid = True\<rparr> \<and>
   member (JObj [(''type'', JNum 1)]) ''type'' = JNum 1 \<and>
   fst (post_root sample_platform sample_commands (signed_request ping_body) sample_env) =
     Inr (JsonResponse (JObj [(''type'', JNum 1)]) None)"
  using ping_yields_pong
    [of sample_platform "signed_request ping_body" sample_env "JObj [(''type'', JNum 1)]"
      sample_commands]
  by (simp add: sample_verified sample_parse_values)

section \<open>Commands\<close>

text \<open>
  Claim C5. The lookup of the command name ignores letter case. Take a verified
  application command (type 2) whose \<open>data.name\<close> is \<open>n\<close> and another whose \<open>data.name\<close> is
  a known command name \<open>c\<close> as \<open>commands.js\<close> spells it; when \<open>n\<close> and \<open>c\<close> agree after
  \<open>toLowerCase\<close>, the two requests get the same response.
\<close>

theorem command_lookup_ignores_case:
  assumes "fst (verifyDiscordRequest P req e) = Inr \<lparr>interaction = v, isValid = True\<rparr>"
    and "fst (verifyDiscordRequest P req' e) = Inr \<lparr>interaction = v', isValid = True\<rparr>"
    and "member v ''type'' = JNum 2" and "member v' ''type'' = JNum 2"
    and "member (member v ''data'') ''name'' = JStr n"
    and "member (member v' ''data'') ''name'' = JStr c"
    and "c = AWW_COMMAND_name C \<or> c = INVITE_COMMAND_name C"
    and "toLowerCase P n = toLowerCase P c"
  shows "fst (post_root P C req e) = fst (post_root P C req' e)"
proof -
  from assms(3,4) have "truthy v" "truthy v'" by (auto intro: typed_truthy)
  then show ?thesis
    using post_root_verified [OF assms(1), of C] post_root_verified [OF assms(2), of C] assms(3-)
    by (simp add: dispatch_typed application_command_named)
qed

theorem command_lookup_ignores_case_witness:
  "fst (verifyDiscordRequest sample_platform (signed_request (command_body ''AwW'')) sample_env) =
     Inr \<lparr>interaction = command_interaction ''AwW'', isValid = True\<rparr> \<and>
   fst (verifyDiscordRequest sample_platform (signed_request (command_body ''aww'')) sample_env) =
     Inr \<lparr>interaction = command_interaction ''aww'', isValid = True\<rparr> \<and>
   toLowerCase sample_platform ''AwW'' = toLowerCase sample_platform ''aww'' \<and>
   fst (post_root sample_platform sample_commands (signed_request (command_body ''AwW''))
     sample_env) =
   fst (post_root sample_platform sample_commands (signed_request (command_body ''aww''))
     sample_env)"
  using command_lookup_ignores_case
    [of sample_platform "signed_request (command_body ''AwW'')" sample_env
      "command_interaction ''AwW''" "signed_request (command_body ''aww'')"
      "command_interaction ''aww''" "''AwW''" "''aww''" sample_commands]
  by (simp add: sample_verified sample_parse_values sample_lower sample_commands_def
      command_interaction_def)

text \<open>
  Claim C6, as the specification states it, fails: at the sample request for the command
  \<open>aww\<close> the message has two action rows, not one, and no single row holds the buttons
  together with the select menu.
\<close>

theorem aww_rows_counterexample:
  "fst (post_root sample_platform sample_commands (signed_request (command_body ''aww''))
     sample_env) = Inr (JsonResponse aww_message None) \<and>
   length (elements (member (member aww_message ''data'') ''components'')) = 2 \<and>
   \<not> buttons_and_select_in_one_row aww_message"
proof -
  have "fst (post_root sample_platform sample_commands (signed_request (command_body ''aww''))
     sample_env) = Inr (JsonResponse aww_message None)"
    using post_root_verified [of sample_platform "signed_request (command_body ''aww'')"
        sample_env "command_interaction ''aww''" sample_commands]
    by (simp add: sample_verified sample_parse_values command_interaction_def dispatch_typed
        application_command_named sample_commands_def)
  moreover have "length (elements (member (member aww_message ''data'') ''components'')) = 2"
    by (simp add: aww_message_def)
  moreover have "\<not> buttons_and_select_in_one_row aww_message"
    by (simp add: buttons_and_select_in_one_row_def aww_message_def)
  ultimately show ?thesis by simp
qed

text \<open>
  Claim C6, amended. A verified application command whose name agrees with the first
  command's name after \<open>toLowerCase\<close> is answered with a message that has exactly three
  embeds, titled 1, 2 and 3, and exactly two components, both action rows (type 1): the
  first row holds the two buttons (type 2) labelled Next and Prev, the second row holds
  one select menu (type 3) with the options 1, 2 and 3.
\<close>

theorem aww_message_layout:
  assumes "fst (verifyDiscordRequest P req e) = Inr \<lparr>interaction = v, isValid = True\<rparr>"
    and "member v ''type'' = JNum 2"
    and "member (member v ''data'') ''name'' = JStr n"
    and "toLowerCase P n = toLowerCase P (AWW_COMMAND_name C)"
  shows "fst (post_root P C req e) = Inr (JsonResponse aww_message None) \<and>
         length (elements (member (member aww_message ''data'') ''embeds'')) = 3 \<and>
         map (\<lambda>x. member x ''title'') (elements (member (member aww_message ''data'') ''embeds'')) =
           [JStr ''1'', JStr ''2'', JStr ''3''] \<and>
         map (\<lambda>row. member row ''type'')
           (elements (member (member aww_message ''data'') ''components'')) = [JNum 1, JNum 1] \<and>
         map row_components (elements (member (member aww_message ''data'') ''components'')) =
           [[JObj [(''type'', JNum 2), (''style'', JNum 2), (''label'', JStr ''Next''),
                   (''custom_id'', JStr ''next'')],
             JObj [(''type'', JNum 2), (''style'', JNum 2), (''label'', JStr ''Prev''),
                   (''custom_id'', JStr ''prev'')]],
            [JObj [(''type'', JNum 3),
                   (''options'', JArr [JObj [(''label'', JStr ''1''), (''value'', JStr ''1'')],
                                       JObj [(''label'', JStr ''2''), (''value'', JStr ''2'')],
                                       JObj [(''label'', JStr ''3''), (''value'', JStr ''3'')]]),
                   (''custom_id'', JStr ''refine''),
                   (''placeholder'', JStr ''Choose an item to refine''),
                   (''min_values'', JNum 1), (''max_values'', JNum 1)]]]"
proof -
  from assms(2) have "truthy v" by (rule typed_truthy)
  then have "fst (post_root P C req e) = Inr (JsonResponse aww_message None)"
    using post_root_verified [OF assms(1), of C] assms(2-)
    by (simp add: dispatch_typed application_command_named)
  then show ?thesis
    by (simp add: aww_message_def aww_embed_def aww_button_def aww_option_def row_components_def
        enum_defs)
qed

theorem aww_message_layout_witness:
  "fst (verifyDiscordRequest sample_platform (signed_request (command_body ''AwW'')) sample_env) =
     Inr \<lparr>interaction = command_interaction ''AwW'', isValid = True\<rparr> \<and>
   toLowerCase sample_platform ''AwW'' = toLowerCase sample_platform ''aww'' \<and>
   fst (post_root sample_platform sample_commands (signed_request (command_body ''AwW''))
     sample_env) = Inr (JsonResponse aww_message None)"
  using aww_message_layout
    [of sample_platform "signed_request (command_body ''AwW'')" sample_env
      "command_interaction ''AwW''" "''AwW''" sample_commands]
  by (simp add: sample_verified sample_parse_values sample_lower sample_commands_def
      command_interaction_def)

text \<open>
  Claim C7. A verified application command whose name agrees with the second command's
  name after \<open>toLowerCase\<close> (and not with the first command's, which the switch tests
  first) is answered with a message whose content is the authorisation URL carrying
  \<open>client_id=\<close> followed by the configured application id, and whose flags are 64, the
  ephemeral flag.
\<close>

theorem invite_message_is_ephemeral_url:
  assumes "fst (verifyDiscordRequest P req e) = Inr \<lparr>interaction = v, isValid = True\<rparr>"
    and "member v ''type'' = JNum 2"
    and "member (member v ''data'') ''name'' = JStr n"
    and "toLowerCase P n = toLowerCase P (INVITE_COMMAND_name C)"
    and "toLowerCase P (INVITE_COMMAND_name C) \<noteq> toLowerCase P (AWW_COMMAND_name C)"
  shows "fst (post_root P C req e) =
           Inr (JsonResponse
             (JObj [(''type'', JNum 4),
                    (''data'', JObj [
                       (''content'', JStr (''https://discord.com/oauth2/authorize?client_id=''
                          @ DISCORD_APPLICATION_ID e @ ''&scope=applications.commands'')),
                       (''flags'', JNum 64)])]) None)"
proof -
  from assms(2) have "truthy v" by (rule typed_truthy)
  then show ?thesis
    using post_root_verified [OF assms(1), of C] assms(2-)
    by (simp add: dispatch_typed application_command_named invite_message_def INVITE_URL_def
        enum_defs)
qed

theorem invite_message_is_ephemeral_url_witness:
  "fst (verifyDiscordRequest sample_platform (signed_request (command_body ''Invite''))
     sample_env) = Inr \<lparr>interaction = command_interaction ''Invite'', isValid = True\<rparr> \<and>
   toLowerCase sample_platform ''Invite'' = toLowerCase sample_platform ''invite'' \<and>
   toLowerCase sample_platform ''invite'' \<noteq> toLowerCase sample_platform ''aww'' \<and>
   fst (post_root sample_platform sample_commands (signed_request (command_body ''Invite''))
     sample_env) =
     Inr (JsonResponse
       (JObj [(''type'', JNum 4),
              (''data'', JObj [
                 (''content'', JStr
                    ''https://discord.com/oauth2/authorize?client_id=1234&scope=applications.commands''),
                 (''flags'', JNum 64)])]) None)"
  using invite_message_is_ephemeral_url
    [of sample_platform "signed_request (command_body ''Invite'')" sample_env
      "command_interaction ''Invite''" "''Invite''" sample_commands]
  by (simp add: sample_verified sample_parse_values sample_lower sample_commands_def
      command_interaction_def sample_application_id)

section \<open>Components\<close>

text \<open>
  Claim C8. A verified message component (type 3) whose \<open>data.custom_id\<close> is \<open>refine\<close> is
  answered with a modal (response type 9) whose components are one action row holding one
  field: a text input (type 4) of the short style (style 1) with the custom id \<open>prompt\<close>.
\<close>

theorem refine_opens_prompt_modal:
  assumes "fst (verifyDiscordRequest P req e) = Inr \<lparr>interaction = v, isValid = True\<rparr>"
    and "member v ''type'' = JNum 3"
    and "member (member v ''data'') ''custom_id'' = JStr ''refine''"
  shows "fst (post_root P C req e) = Inr (JsonResponse refine_modal None) \<and>
         member refine_modal ''type'' = JNum 9 \<and>
         map (\<lambda>row. member row ''type'')
           (elements (member (member refine_modal ''data'') ''components'')) = [JNum 1] \<and>
         map row_components (elements (member (member refine_modal ''data'') ''components'')) =
           [[JObj [(''type'', JNum 4), (''custom_id'', JStr ''prompt''),
                   (''label'', JStr ''Prompt''), (''style'', JNum 1),
                   (''min_length'', JNum 1), (''max_length'', JNum 4000)]]]"
proof -
  from assms(2) have "truthy v" by (rule typed_truthy)
  then have "fst (post_root P C req e) = Inr (JsonResponse refine_modal None)"
    using post_root_verified [OF assms(1), of C] assms(2-)
    by (simp add: dispatch_typed message_component_refine)
  then show ?thesis
    by (simp add: refine_modal_def row_components_def enum_defs)
qed

theorem refine_opens_prompt_modal_witness:
  "fst (verifyDiscordRequest sample_platform (signed_request refine_body) sample_env) =
     Inr \<lparr>interaction = refine_interaction, isValid = True\<rparr> \<and>
   member refine_interaction ''type'' = JNum 3 \<and>
   member (member refine_interaction ''data'') ''custom_id'' = JStr ''refine'' \<and>
   fst (post_root sample_platform sample_commands (signed_request refine_body) sample_env) =
     Inr (JsonResponse refine_modal None)"
  using refine_opens_prompt_modal
    [of sample_platform "signed_request refine_body" sample_env refine_interaction
      sample_commands]
  by (simp add: sample_verified sample_parse_values refine_interaction_def)

section \<open>Unknown commands and unknown types\<close>

text \<open>
  Claim C9. A verified application command (type 2) whose \<open>data.name\<close> is a string that
  agrees with neither command name after \<open>toLowerCase\<close>, and a verified interaction that
  passes the guard (it is truthy) and whose \<open>type\<close> is none of 1, 2, 3 and 5, are both
  answered by \<open>new JsonResponse({ error: 'Unknown Type' }, { status: 400 })\<close>, whose status
  is 400.
\<close>

theorem unknown_type_is_400:
  assumes "fst (verifyDiscordRequest P req e) = Inr \<lparr>interaction = v, isValid = True\<rparr>"
    and "(member v ''type'' = JNum 2 \<and> member (member v ''data'') ''name'' = JStr n \<and>
          toLowerCase P n \<noteq> toLowerCase P (AWW_COMMAND_name C) \<and>
          toLowerCase P n \<noteq> toLowerCase P (INVITE_COMMAND_name C)) \<or>
         (truthy v \<and> member v ''type'' \<notin> {JNum 1, JNum 2, JNum 3, JNum 5})"
  shows "fst (post_root P C req e) =
           Inr (JsonResponse (JObj [(''error'', JStr ''Unknown Type'')])
                  (Some \<lparr>init_status = Some 400, init_headers = []\<rparr>)) \<and>
         status_of (JsonResponse (JObj [(''error'', JStr ''Unknown Type'')])
                  (Some \<lparr>init_status = Some 400, init_headers = []\<rparr>)) = 400 \<and>
         body_of P (JsonResponse (JObj [(''error'', JStr ''Unknown Type'')])
                  (Some \<lparr>init_status = Some 400, init_headers = []\<rparr>)) =
           JSON_stringify P (JObj [(''error'', JStr ''Unknown Type'')])"
proof -
  have st: "status_of (JsonResponse (JObj [(''error'', JStr ''Unknown Type'')])
                  (Some \<lparr>init_status = Some 400, init_headers = []\<rparr>)) = 400"
    by (simp add: status_of_def)
  from assms(2) show ?thesis
  proof
    assume a: "member v ''type'' = JNum 2 \<and> member (member v ''data'') ''name'' = JStr n \<and>
          toLowerCase P n \<noteq> toLowerCase P (AWW_COMMAND_name C) \<and>
          toLowerCase P n \<noteq> toLowerCase P (INVITE_COMMAND_name C)"
    then have "truthy v" by (auto intro: typed_truthy)
    moreover from a have "fst (dispatch P C e v) = Inr unknown_type_response"
      by (simp add: dispatch_typed application_command_named)
    ultimately show ?thesis
      using post_root_verified [OF assms(1), of C] st
      by (simp add: unknown_type_response_def)
  next
    assume a: "truthy v \<and> member v ''type'' \<notin> {JNum 1, JNum 2, JNum 3, JNum 5}"
    then have "fst (dispatch P C e v) = Inr unknown_type_response"
      by (simp add: dispatch_untyped)
    with a show ?thesis
      using post_root_verified [OF assms(1), of C] st
      by (simp add: unknown_type_response_def)
  qed
qed

theorem unknown_type_is_400_witness:
  "fst (verifyDiscordRequest sample_platform (signed_request (command_body ''help'')) sample_env) =
     Inr \<lparr>interaction = command_interaction ''help'', isValid = True\<rparr> \<and>
   toLowerCase sample_platform ''help'' \<noteq> toLowerCase sample_platform ''aww'' \<and>
   toLowerCase sample_platform ''help'' \<noteq> toLowerCase sample_platform ''invite'' \<and>
   fst (post_root sample_platform sample_commands (signed_request (command_body ''help''))
     sample_env) =
     Inr (JsonResponse (JObj [(''error'', JStr ''Unknown Type'')])
            (Some \<lparr>init_status = Some 400, init_headers = []\<rparr>)) \<and>
   fst (verifyDiscordRequest sample_platform (signed_request autocomplete_body) sample_env) =
     Inr \<lparr>interaction = JObj [(''type'', JNum 4)], isValid = True\<rparr> \<and>
   fst (post_root sample_platform sample_commands (signed_request autocomplete_body)
     sample_env) =
     Inr (JsonResponse (JObj [(''error'', JStr ''Unknown Type'')])
            (Some \<lparr>init_status = Some 400, init_headers = []\<rparr>))"
  using unknown_type_is_400
    [of sample_platform "signed_request (command_body ''help'')" sample_env
      "command_interaction ''help''" "''help''" sample_commands]
    unknown_type_is_400
    [of sample_platform "signed_request autocomplete_body" sample_env
      "JObj [(''type'', JNum 4)]" "''help''" sample_commands]
  by (simp add: sample_verified sample_parse_values sample_lower sample_commands_def
      command_interaction_def)

section \<open>Falsy bodies\<close>

text \<open>
  Claim C10. When the verification succeeds and the body parses to \<open>null\<close>, \<open>false\<close>, 0 or
  the empty string, the guard \<open>!isValid || !interaction\<close> answers with status 401 and the
  text \<open>Bad request signature.\<close>, the response of a failed authentication.
\<close>

theorem falsy_interaction_is_401:
  assumes "fst (verifyDiscordRequest P req e) = Inr \<lparr>interaction = v, isValid = True\<rparr>"
    and "v = JNull \<or> v = JBool False \<or> v = JNum 0 \<or> v = JStr []"
  shows "fst (post_root P C req e) =
           Inr (Response ''Bad request signature.'' \<lparr>init_status = Some 401, init_headers = []\<rparr>) \<and>
         status_of (Response ''Bad request signature.''
           \<lparr>init_status = Some 401, init_headers = []\<rparr>) = 401 \<and>
         body_of P (Response ''Bad request signature.''
           \<lparr>init_status = Some 401, init_headers = []\<rparr>) = Some ''Bad request signature.''"
proof -
  from assms(2) have "\<not> truthy v" by auto
  then show ?thesis
    using post_root_verified [OF assms(1), of C]
    by (simp add: bad_signature_response_def status_of_def)
qed

theorem falsy_interaction_is_401_witness:
  "fst (verifyDiscordRequest sample_platform (signed_request ''null'') sample_env) =
     Inr \<lparr>interaction = JNull, isValid = True\<rparr> \<and>
   fst (post_root sample_platform sample_commands (signed_request ''null'') sample_env) =
     Inr (Response ''Bad request signature.'' \<lparr>init_status = Some 401, init_headers = []\<rparr>) \<and>
   fst (post_root sample_platform sample_commands (signed_request ''false'') sample_env) =
     Inr (Response ''Bad request signature.'' \<lparr>init_status = Some 401, init_headers = []\<rparr>) \<and>
   fst (post_root sample_platform sample_commands (signed_request ''0'') sample_env) =
     Inr (Response ''Bad request signature.'' \<lparr>init_status = Some 401, init_headers = []\<rparr>) \<and>
   fst (post_root sample_platform sample_commands (signed_request (quoted [])) sample_env) =
     Inr (Response ''Bad request signature.'' \<lparr>init_status = Some 401, init_headers = []\<rparr>)"
  using falsy_interaction_is_401
      [of sample_platform "signed_request ''null''" sample_env JNull sample_commands]
    falsy_interaction_is_401
      [of sample_platform "signed_request ''false''" sample_env "JBool False" sample_commands]
    falsy_interaction_is_401
      [of sample_platform "signed_request ''0''" sample_env "JNum 0" sample_commands]
    falsy_interaction_is_401
      [of sample_platform "signed_request (quoted [])" sample_env "JStr []" sample_commands]
  by (simp add: sample_verified sample_parse_values)

end
